theory Spec2Isabelle
  imports Main
begin

section \<open>Data model\<close>

text \<open>
  The persisted entity of \<^verbatim>\<open>Models/ContextModel.js\<close>: four string paths, of which
  only \<^verbatim>\<open>token\<close> has a default (the one-character string of a single space) and only
  \<^verbatim>\<open>email\<close> carries a unique index. A path that was never set is \<open>None\<close>. Every
  write of the controller supplies \<^verbatim>\<open>email\<close>, and \<^verbatim>\<open>token\<close> is either supplied or
  defaulted, so both are plain strings. The identifier and the timestamps that the
  store maintains by itself are left out.
\<close>

record ContextRecord =
  name :: "string option"
  email :: string
  context' :: "string option"
  token :: string

definition token_default :: string where
  "token_default = '' ''"

type_synonym collection = "ContextRecord list"

text \<open>
  Errors that the controller catches. The controller never inspects them: it logs
  them, passes them to the \<^verbatim>\<open>tokensSaved\<close> listeners, and answers.
\<close>

datatype error = GetTokenError | MongoError | DuplicateKeyError

text \<open>
  A response is a status and what was sent: \<^verbatim>\<open>res.status(n).send(text)\<close>,
  \<^verbatim>\<open>res.status(n).json({message: text})\<close>, or the static HTML literal of
  \<^verbatim>\<open>handleCallback\<close>.
\<close>

datatype body = Send string | Json_message string | Send_confirmation_page

record response =
  status :: nat
  sent :: body

text \<open>Calls that leave the process, in the order a handler makes them.\<close>

datatype call = Context_findOne | Context_findOneAndUpdate | Context_save
  | OAuth2_getToken string | OpenURL_open

text \<open>
  The process-wide state: the collection behind the \<^verbatim>\<open>Context\<close> model, the
  credentials held by the single \<^verbatim>\<open>oAuth2Client\<close> (\<open>None\<close> until
  \<^verbatim>\<open>setCredentials\<close> is first called), and the \<^verbatim>\<open>once('tokensSaved')\<close> listeners
  registered on that client, each named by the request it will answer.
\<close>

record 'c state =
  store :: collection
  credentials :: "'c option"
  listeners :: "nat list"

text \<open>
  What a handler invocation meets outside the repository: the JSON functions of the
  runtime (\<^verbatim>\<open>JSON.parse\<close> throws on malformed text: \<open>None\<close>), the provider's answer
  to a code exchange, and whether the database answers the one store call the
  handler makes.
\<close>

record 'c env =
  JSON_stringify :: "'c \<Rightarrow> string"
  JSON_parse :: "string \<Rightarrow> 'c option"
  getToken :: "string \<Rightarrow> error + 'c"
  mongo_up :: bool

section \<open>The store, as the controller uses it\<close>

text \<open>\<^verbatim>\<open>Context.findOne({ email: e })\<close>: the first document with that email.\<close>

fun findOne :: "collection \<Rightarrow> string \<Rightarrow> ContextRecord option" where
  "findOne [] e = None"
| "findOne (r # rs) e = (if email r = e then Some r else findOne rs e)"

text \<open>
  \<^verbatim>\<open>Context.findOneAndUpdate({ email: e }, { token: t }, { new: true, upsert: true })\<close>:
  the first document with that email gets the token; without one, a document with
  the filter's email and the token is inserted.
\<close>

fun findOneAndUpdate :: "collection \<Rightarrow> string \<Rightarrow> string \<Rightarrow> collection" where
  "findOneAndUpdate [] e t = [\<lparr>name = None, email = e, context' = None, token = t\<rparr>]"
| "findOneAndUpdate (r # rs) e t =
     (if email r = e then r\<lparr>token := t\<rparr> # rs else r # findOneAndUpdate rs e t)"

text \<open>
  \<^verbatim>\<open>new Context({...}).save()\<close>: an insert. The schema declares \<^verbatim>\<open>unique: true\<close> on
  \<^verbatim>\<open>email\<close>, so the insert of an email that is already stored is refused with a
  duplicate-key error.
\<close>

definition save :: "collection \<Rightarrow> ContextRecord \<Rightarrow> error + collection" where
  "save d r = (case findOne d (email r) of
                 Some _ \<Rightarrow> Inl DuplicateKeyError
               | None \<Rightarrow> Inr (d @ [r]))"

section \<open>The controller\<close>

definition emailId :: string where
  "emailId = ''irctcvivek62@gmail.com''"

text \<open>JavaScript's \<^verbatim>\<open>!x\<close> on a value that is a string or undefined.\<close>

fun falsy :: "string option \<Rightarrow> bool" where
  "falsy None = True"
| "falsy (Some v) = (v = [])"

text \<open>
  The continuation of a suspended \<^verbatim>\<open>authorize\<close>: the listener that \<^verbatim>\<open>getNewToken\<close>
  registers hands the emitted value to the promise, whose \<^verbatim>\<open>then\<close> and \<^verbatim>\<open>catch\<close>
  send the answer.
\<close>

fun authorize_resume :: "error option \<Rightarrow> response" where
  "authorize_resume None = \<lparr>status = 200, sent = Send ''Authorization completed, token saved.''\<rparr>"
| "authorize_resume (Some e) = \<lparr>status = 500, sent = Send ''Authorization failed.''\<rparr>"

text \<open>
  \<^verbatim>\<open>oAuth2Client.emit('tokensSaved', v)\<close>: every registered listener runs once with
  \<open>v\<close> and is removed.
\<close>

definition emit_tokensSaved :: "error option \<Rightarrow> nat list \<Rightarrow> (nat \<times> response) list" where
  "emit_tokensSaved v ls = map (\<lambda>rid. (rid, authorize_resume v)) ls"

datatype emitted = Not_emitted | Emitted "error option"

datatype outcome = Replied response | Suspended

text \<open>
  What one invocation of a handler did: the answer it sent (or that the request is
  still open), and its outside calls. \<^verbatim>\<open>handleCallback\<close> also emits on the client:
  what it emitted, and the answers the listeners sent to the requests they held.
\<close>

record handled =
  outcome :: outcome
  calls :: "call list"

record callback_handled = handled +
  signal :: emitted
  released :: "(nat \<times> response) list"

text \<open>The \<^verbatim>\<open>catch\<close> block of \<^verbatim>\<open>handleCallback\<close>.\<close>

definition handleCallback_catch ::
  "error \<Rightarrow> call list \<Rightarrow> 'c state \<Rightarrow> callback_handled \<times> 'c state" where
  "handleCallback_catch err cs s =
     (\<lparr>outcome = Replied \<lparr>status = 500, sent = Send ''An error occurred during authentication.''\<rparr>,
       calls = cs,
       signal = Emitted (Some err),
       released = emit_tokensSaved (Some err) (listeners s)\<rparr>,
      s\<lparr>listeners := []\<rparr>)"

definition missing_code :: "'c state \<Rightarrow> callback_handled \<times> 'c state" where
  "missing_code s =
     (\<lparr>outcome = Replied \<lparr>status = 400, sent = Send ''Authorization code is missing.''\<rparr>,
       calls = [], signal = Not_emitted, released = []\<rparr>, s)"

text \<open>
  \<^verbatim>\<open>req.query.code\<close> is undefined (\<open>None\<close>) or a string; \<^verbatim>\<open>!code\<close> holds for
  undefined and for the empty string.
\<close>

definition handleCallback ::
  "'c env \<Rightarrow> string option \<Rightarrow> 'c state \<Rightarrow> callback_handled \<times> 'c state" where
  "handleCallback env code s =
     (case code of
        None \<Rightarrow> missing_code s
      | Some c \<Rightarrow>
         if c = [] then missing_code s
         else
          (case getToken env c of
             Inl err \<Rightarrow> handleCallback_catch err [OAuth2_getToken c] s
           | Inr tokens \<Rightarrow>
              (let s1 = s\<lparr>credentials := Some tokens\<rparr>;
                   savedToken = JSON_stringify env tokens
               in if mongo_up env then
                    (\<lparr>outcome = Replied \<lparr>status = 200, sent = Send_confirmation_page\<rparr>,
                      calls = [OAuth2_getToken c, Context_findOneAndUpdate],
                      signal = Emitted None,
                      released = emit_tokensSaved None (listeners s1)\<rparr>,
                     s1\<lparr>store := findOneAndUpdate (store s1) ''irctcvivek62@gmail.com'' savedToken,
                        listeners := []\<rparr>)
                  else handleCallback_catch MongoError
                         [OAuth2_getToken c, Context_findOneAndUpdate] s1)))"

text \<open>
  \<^verbatim>\<open>getNewToken\<close>: opens the authorization URL and registers the listener; the
  request stays open until \<^verbatim>\<open>tokensSaved\<close> is emitted. Building the URL and
  launching the browser are taken to return normally. The lookup that
  \<^verbatim>\<open>authorize\<close> made before is the first call of the invocation.
\<close>

definition getNewToken :: "nat \<Rightarrow> 'c state \<Rightarrow> handled \<times> 'c state" where
  "getNewToken rid s =
     (\<lparr>outcome = Suspended, calls = [Context_findOne, OpenURL_open]\<rparr>,
      s\<lparr>listeners := listeners s @ [rid]\<rparr>)"

definition authorize_error :: "'c state \<Rightarrow> handled \<times> 'c state" where
  "authorize_error s =
     (\<lparr>outcome = Replied \<lparr>status = 500, sent = Send ''Error during authorization.''\<rparr>,
       calls = [Context_findOne]\<rparr>, s)"

definition authorize :: "'c env \<Rightarrow> nat \<Rightarrow> 'c state \<Rightarrow> handled \<times> 'c state" where
  "authorize env rid s =
     (if mongo_up env then
        (case findOne (store s) emailId of
           None \<Rightarrow> getNewToken rid s
         | Some userContext \<Rightarrow>
            (if token userContext = '' '' then getNewToken rid s
             else case JSON_parse env (token userContext) of
                    None \<Rightarrow> authorize_error s
                  | Some creds \<Rightarrow>
                      (\<lparr>outcome = Replied \<lparr>status = 200,
                           sent = Send ''Token already exists, authorization successful.''\<rparr>,
                        calls = [Context_findOne]\<rparr>,
                       s\<lparr>credentials := Some creds\<rparr>)))
      else authorize_error s)"

text \<open>The body of \<^verbatim>\<open>POST /api/saveContext\<close>, as the handler destructures it.\<close>

record request_body =
  body_context :: "string option"
  body_name :: "string option"
  body_emailId :: "string option"

definition missing_fields :: "'c state \<Rightarrow> handled \<times> 'c state" where
  "missing_fields s =
     (\<lparr>outcome = Replied \<lparr>status = 400, sent = Json_message ''Missing required fields''\<rparr>,
       calls = []\<rparr>, s)"

definition saveContext :: "'c env \<Rightarrow> request_body \<Rightarrow> 'c state \<Rightarrow> handled \<times> 'c state" where
  "saveContext env b s =
     (case (body_context b, body_name b, body_emailId b) of
        (Some c, Some n, Some e) \<Rightarrow>
          if c = [] \<or> n = [] \<or> e = [] then missing_fields s
          else
           (let newContext = \<lparr>name = Some n, email = e, context' = Some c,
                               token = token_default\<rparr>
            in case (if mongo_up env then save (store s) newContext else Inl MongoError) of
                 Inl err \<Rightarrow>
                   (\<lparr>outcome = Replied \<lparr>status = 500, sent = Json_message ''Failed to save context''\<rparr>,
                     calls = [Context_save]\<rparr>, s)
               | Inr d \<Rightarrow>
                   (\<lparr>outcome = Replied \<lparr>status = 200, sent = Json_message ''Context saved successfully''\<rparr>,
                     calls = [Context_save]\<rparr>,
                    s\<lparr>store := d\<rparr>))
      | _ \<Rightarrow> missing_fields s)"

section \<open>Runs of the server\<close>

text \<open>
  A request as the server receives it; each comes with the environment it meets.
  The server starts with an empty client and no listener.
\<close>

datatype request = Authorize nat | Callback "string option" | SaveContext request_body

fun handle :: "'c env \<times> request \<Rightarrow> 'c state \<Rightarrow> 'c state" where
  "handle (env, Authorize rid) s = snd (authorize env rid s)"
| "handle (env, Callback code) s = snd (handleCallback env code s)"
| "handle (env, SaveContext b) s = snd (saveContext env b s)"

fun run :: "('c env \<times> request) list \<Rightarrow> 'c state \<Rightarrow> 'c state" where
  "run [] s = s"
| "run (r # rs) s = run rs (handle r s)"

text \<open>Whether a request is a callback.\<close>

fun is_Callback :: "request \<Rightarrow> bool" where
  "is_Callback (Callback code) = True"
| "is_Callback r = False"

definition startup :: "collection \<Rightarrow> 'c state" where
  "startup d = \<lparr>store = d, credentials = None, listeners = []\<rparr>"

section \<open>A runtime to evaluate the handlers on\<close>

text \<open>
  A credential set that is one access token, written as a JSON object with that one
  member; the reader accepts exactly such objects whose token needs no escape.
\<close>

definition demo_stringify :: "string \<Rightarrow> string" where
  "demo_stringify t = ''{\"access_token\":\"'' @ t @ ''\"}''"

definition demo_parse :: "string \<Rightarrow> string option" where
  "demo_parse s =
     (let pre = ''{\"access_token\":\"''; n = length s in
      if 19 \<le> n \<and> take 17 s = pre \<and> drop (n - 2) s = ''\"}''
         \<and> CHR 0x22 \<notin> set (take (n - 19) (drop 17 s))
         \<and> CHR 0x5C \<notin> set (take (n - 19) (drop 17 s))
      then Some (take (n - 19) (drop 17 s)) else None)"

definition demo_env :: "(string \<Rightarrow> error + string) \<Rightarrow> bool \<Rightarrow> string env" where
  "demo_env exchange up =
     \<lparr>JSON_stringify = demo_stringify, JSON_parse = demo_parse,
      getToken = exchange, mongo_up = up\<rparr>"

text \<open>A provider that accepts the code \<^verbatim>\<open>ABC\<close> only.\<close>

definition demo_exchange :: "string \<Rightarrow> error + string" where
  "demo_exchange c = (if c = ''ABC'' then Inr ''ya29'' else Inl GetTokenError)"

text \<open>The uniqueness that the index on \<^verbatim>\<open>email\<close> stands for.\<close>

definition email_unique :: "collection \<Rightarrow> bool" where
  "email_unique d = distinct (map email d)"

section \<open>Facts about the store\<close>

lemma findOne_None_iff: "(findOne d e = None) = (e \<notin> set (map email d))"
  by (induction d) auto

lemma findOne_Some_email: "findOne d e = Some r \<Longrightarrow> email r = e"
  by (induction d) (auto split: if_splits)

lemma findOne_findOneAndUpdate:
  "findOne (findOneAndUpdate d e t) e =
     Some (case findOne d e of
             None \<Rightarrow> \<lparr>name = None, email = e, context' = None, token = t\<rparr>
           | Some r \<Rightarrow> r\<lparr>token := t\<rparr>)"
  by (induction d) auto

lemma findOne_findOneAndUpdate_other:
  "e' \<noteq> e \<Longrightarrow> findOne (findOneAndUpdate d e t) e' = findOne d e'"
  by (induction d) auto

lemma map_email_findOneAndUpdate:
  "map email (findOneAndUpdate d e t) =
     (if e \<in> set (map email d) then map email d else map email d @ [e])"
  by (induction d) auto

lemma length_findOneAndUpdate:
  "length (findOneAndUpdate d e t) =
     (if findOne d e = None then Suc (length d) else length d)"
  by (induction d) auto

lemma email_unique_findOneAndUpdate:
  "email_unique d \<Longrightarrow> email_unique (findOneAndUpdate d e t)"
  by (simp add: email_unique_def map_email_findOneAndUpdate)

lemma email_unique_save:
  "email_unique d \<Longrightarrow> save d r = Inr d' \<Longrightarrow> email_unique d'"
  by (auto simp: email_unique_def save_def findOne_None_iff split: option.splits)

lemma store_authorize: "store (snd (authorize env rid s)) = store s"
  by (simp add: authorize_def getNewToken_def authorize_error_def split: option.splits)

lemma store_saveContext_cases:
  "store (snd (saveContext env b s)) = store s \<or>
   (\<exists>r. save (store s) r = Inr (store (snd (saveContext env b s))))"
  by (auto simp: saveContext_def missing_fields_def Let_def split: option.splits sum.splits if_splits)

lemma store_handleCallback_cases:
  "store (snd (handleCallback env code s)) = store s \<or>
   (\<exists>t. store (snd (handleCallback env code s)) = findOneAndUpdate (store s) ''irctcvivek62@gmail.com'' t)"
  by (auto simp: handleCallback_def missing_code_def handleCallback_catch_def Let_def split: option.splits sum.splits)

lemma email_unique_handle:
  "email_unique (store s) \<Longrightarrow> email_unique (store (handle r s))"
proof (cases r)
  case (Pair env q)
  assume u: "email_unique (store s)"
  show ?thesis
  proof (cases q)
    case (Authorize rid)
    with Pair u show ?thesis by (simp add: store_authorize)
  next
    case (Callback code)
    with Pair u store_handleCallback_cases[of env code s] show ?thesis
      by (auto simp: email_unique_findOneAndUpdate)
  next
    case (SaveContext b)
    with Pair u store_saveContext_cases[of env b s] show ?thesis
      by (auto dest: email_unique_save)
  qed
qed

lemma email_unique_run:
  "email_unique (store s) \<Longrightarrow> email_unique (store (run rs s))"
  by (induction rs arbitrary: s) (auto simp: email_unique_handle)


section \<open>The evaluation runtime reads what it writes\<close>

lemma demo_parse_stringify:
  assumes "CHR 0x22 \<notin> set t" and "CHR 0x5C \<notin> set t"
  shows "demo_parse (demo_stringify t) = Some t"
  using assms by (simp add: demo_parse_def demo_stringify_def)

lemma demo_parse_blank: "demo_parse '' '' = None" "demo_parse '''' = None"
  by (simp_all add: demo_parse_def)

section \<open>The branches of \<^verbatim>\<open>handleCallback\<close>\<close>

lemma handleCallback_falsy:
  "falsy code \<Longrightarrow> handleCallback env code s = missing_code s"
  by (cases code) (simp_all add: handleCallback_def)

lemma handleCallback_exchange_error:
  "c \<noteq> [] \<Longrightarrow> getToken env c = Inl err \<Longrightarrow>
   handleCallback env (Some c) s = handleCallback_catch err [OAuth2_getToken c] s"
  by (simp add: handleCallback_def)

lemma handleCallback_store_error:
  "c \<noteq> [] \<Longrightarrow> getToken env c = Inr tokens \<Longrightarrow> \<not> mongo_up env \<Longrightarrow>
   handleCallback env (Some c) s =
     handleCallback_catch MongoError [OAuth2_getToken c, Context_findOneAndUpdate]
       (s\<lparr>credentials := Some tokens\<rparr>)"
  by (simp add: handleCallback_def)

lemma handleCallback_success:
  "c \<noteq> [] \<Longrightarrow> getToken env c = Inr tokens \<Longrightarrow> mongo_up env \<Longrightarrow>
   handleCallback env (Some c) s =
     (\<lparr>outcome = Replied \<lparr>status = 200, sent = Send_confirmation_page\<rparr>,
       calls = [OAuth2_getToken c, Context_findOneAndUpdate],
       signal = Emitted None,
       released = emit_tokensSaved None (listeners s)\<rparr>,
      s\<lparr>credentials := Some tokens,
        store := findOneAndUpdate (store s) ''irctcvivek62@gmail.com'' (JSON_stringify env tokens),
        listeners := []\<rparr>)"
  by (simp add: handleCallback_def)

section \<open>Errors of \<^verbatim>\<open>authorize\<close>\<close>

text \<open>
  Claim C7. A failed read of the store, and a stored token that is not blank and that
  \<^verbatim>\<open>JSON.parse\<close> rejects, both end the request with the server error of
  \<^verbatim>\<open>authorize\<close>'s \<^verbatim>\<open>catch\<close> block. Nothing is committed: the state after the
  request is the state before it (store, active credentials and pending listeners),
  and the only outside call was the lookup.
\<close>

theorem authorize_error_terminal:
  assumes "\<not> mongo_up env \<or>
           (\<exists>u. findOne (store s) emailId = Some u \<and> token u \<noteq> '' ''
                \<and> JSON_parse env (token u) = None)"
  shows "authorize env rid s =
           (\<lparr>outcome = Replied \<lparr>status = 500, sent = Send ''Error during authorization.''\<rparr>,
             calls = [Context_findOne]\<rparr>, s)"
  using assms by (auto simp: authorize_def authorize_error_def)

theorem authorize_error_terminal_witness:
  "authorize (demo_env demo_exchange False) 7 (startup []) =
     (\<lparr>outcome = Replied \<lparr>status = 500, sent = Send ''Error during authorization.''\<rparr>,
       calls = [Context_findOne]\<rparr>, startup [])
   \<and> authorize (demo_env demo_exchange True) 7
       (\<lparr>store = [\<lparr>name = None, email = ''irctcvivek62@gmail.com'', context' = None,
                    token = ''{oops''\<rparr>],
         credentials = Some ''old'', listeners = [3]\<rparr>) =
     (\<lparr>outcome = Replied \<lparr>status = 500, sent = Send ''Error during authorization.''\<rparr>,
       calls = [Context_findOne]\<rparr>,
      \<lparr>store = [\<lparr>name = None, email = ''irctcvivek62@gmail.com'', context' = None,
                    token = ''{oops''\<rparr>],
         credentials = Some ''old'', listeners = [3]\<rparr>)"
proof -
  have down: "\<not> mongo_up (demo_env demo_exchange False) \<or>
      (\<exists>u. findOne (store (startup [] :: string state)) emailId = Some u \<and> token u \<noteq> '' ''
           \<and> JSON_parse (demo_env demo_exchange False) (token u) = None)"
    by (simp add: demo_env_def)
  let ?s = "\<lparr>store = [\<lparr>name = None, email = ''irctcvivek62@gmail.com'', context' = None,
                    token = ''{oops''\<rparr>],
         credentials = Some ''old'', listeners = [3]\<rparr> :: string state"
  have bad: "\<not> mongo_up (demo_env demo_exchange True) \<or>
      (\<exists>u. findOne (store ?s) emailId = Some u \<and> token u \<noteq> '' ''
           \<and> JSON_parse (demo_env demo_exchange True) (token u) = None)"
    by (simp add: demo_env_def emailId_def demo_parse_def)
  show ?thesis
    using authorize_error_terminal [OF down, of 7] authorize_error_terminal [OF bad, of 7]
    by simp
qed

section \<open>\<^verbatim>\<open>handleCallback\<close>\<close>

text \<open>
  Claim C5 says that every failing \<^verbatim>\<open>handleCallback\<close> signals the pending
  handshake with the error. The \<^verbatim>\<open>catch\<close> block does so for an exchange error and
  for a persistence error (\<open>handleCallback_caught_signals\<close> below), but the
  missing-code branch returns before any \<^verbatim>\<open>emit\<close>: with one \<^verbatim>\<open>authorize\<close> request
  suspended (listener 1), a callback without \<^verbatim>\<open>code\<close> answers 400, emits nothing,
  releases no request and leaves the listener registered.
\<close>

theorem handleCallback_missing_code_no_signal:
  "handleCallback (demo_env demo_exchange True) None
     (\<lparr>store = [], credentials = None, listeners = [1]\<rparr>) =
   (\<lparr>outcome = Replied \<lparr>status = 400, sent = Send ''Authorization code is missing.''\<rparr>,
     calls = [], signal = Not_emitted, released = []\<rparr>,
    \<lparr>store = [], credentials = None, listeners = [1]\<rparr>)"
  by (simp add: handleCallback_def missing_code_def)

lemma handleCallback_caught_signals:
  assumes "c \<noteq> []"
    and "getToken env c = Inl err \<or> \<not> mongo_up env"
  shows "\<exists>e. signal (fst (handleCallback env (Some c) s)) = Emitted (Some e)
           \<and> released (fst (handleCallback env (Some c) s)) =
               map (\<lambda>rid. (rid, \<lparr>status = 500, sent = Send ''Authorization failed.''\<rparr>)) (listeners s)
           \<and> listeners (snd (handleCallback env (Some c) s)) = []"
  using assms
  by (auto simp: handleCallback_def handleCallback_catch_def emit_tokensSaved_def Let_def
           split: sum.splits)

text \<open>
  Claim C1 says that a failing \<^verbatim>\<open>handleCallback\<close> leaves the active credential set
  unchanged. \<^verbatim>\<open>setCredentials\<close> runs before the store is written, so an invocation
  whose exchange succeeds and whose write fails answers 500 with the exchanged
  credentials already adopted: here \<^verbatim>\<open>ya29\<close> replaces \<^verbatim>\<open>old\<close>.
\<close>

theorem handleCallback_store_error_adopts_credentials:
  "outcome (fst (handleCallback (demo_env demo_exchange False) (Some ''ABC'')
      (\<lparr>store = [], credentials = Some ''old'', listeners = []\<rparr>))) =
     Replied \<lparr>status = 500, sent = Send ''An error occurred during authentication.''\<rparr>
   \<and> credentials (snd (handleCallback (demo_env demo_exchange False) (Some ''ABC'')
      (\<lparr>store = [], credentials = Some ''old'', listeners = []\<rparr>))) = Some ''ya29''
   \<and> Some ''ya29'' \<noteq> Some ''old''"
  by (simp add: handleCallback_def handleCallback_catch_def demo_env_def demo_exchange_def)

text \<open>
  Claim C1, amended. When \<^verbatim>\<open>handleCallback\<close> does not answer with the confirmation
  page: if the code is missing or the exchange failed, the active credential set is the
  one from before the invocation; if the exchange succeeded, the failure is the store's
  and the active credential set is the one the exchange returned.
\<close>

theorem handleCallback_failure_credentials:
  assumes "outcome (fst (handleCallback env code s)) \<noteq>
             Replied \<lparr>status = 200, sent = Send_confirmation_page\<rparr>"
  shows "(falsy code \<or> (\<exists>c err. code = Some c \<and> getToken env c = Inl err) \<longrightarrow>
            credentials (snd (handleCallback env code s)) = credentials s)
       \<and> (\<forall>c tokens. code = Some c \<and> c \<noteq> [] \<and> getToken env c = Inr tokens \<longrightarrow>
            \<not> mongo_up env \<and> credentials (snd (handleCallback env code s)) = Some tokens)"
  using assms
  by (auto simp: handleCallback_def handleCallback_catch_def missing_code_def Let_def
           split: option.splits sum.splits if_splits)

theorem handleCallback_failure_credentials_witness:
  "credentials (snd (handleCallback (demo_env demo_exchange True) None
      (\<lparr>store = [], credentials = Some ''old'', listeners = []\<rparr>))) = Some ''old''
   \<and> credentials (snd (handleCallback (demo_env demo_exchange True) (Some ''XYZ'')
      (\<lparr>store = [], credentials = Some ''old'', listeners = []\<rparr>))) = Some ''old''
   \<and> credentials (snd (handleCallback (demo_env demo_exchange False) (Some ''ABC'')
      (\<lparr>store = [], credentials = Some ''old'', listeners = []\<rparr>))) = Some ''ya29''"
proof -
  let ?s = "\<lparr>store = [], credentials = Some ''old'', listeners = []\<rparr> :: string state"
  let ?ok = "Replied \<lparr>status = 200, sent = Send_confirmation_page\<rparr>"
  have h1: "outcome (fst (handleCallback (demo_env demo_exchange True) None ?s)) \<noteq> ?ok"
    by (simp add: handleCallback_def missing_code_def)
  have h2: "outcome (fst (handleCallback (demo_env demo_exchange True) (Some ''XYZ'') ?s)) \<noteq> ?ok"
    by (simp add: handleCallback_def handleCallback_catch_def demo_env_def demo_exchange_def)
  have h3: "outcome (fst (handleCallback (demo_env demo_exchange False) (Some ''ABC'') ?s)) \<noteq> ?ok"
    by (simp add: handleCallback_def handleCallback_catch_def demo_env_def demo_exchange_def)
  show ?thesis
    using handleCallback_failure_credentials [OF h1] handleCallback_failure_credentials [OF h2]
      handleCallback_failure_credentials [OF h3]
    by (simp add: demo_env_def demo_exchange_def)
qed

text \<open>
  Claim C4 says that the 400 answer is sent exactly when the \<^verbatim>\<open>code\<close> query
  parameter is absent. The guard is \<^verbatim>\<open>!code\<close>, which also holds for a parameter
  that is present and empty (\<^verbatim>\<open>GET /callback?code=\<close>).
\<close>

theorem handleCallback_empty_code_400:
  "Some '''' \<noteq> (None :: string option)
   \<and> outcome (fst (handleCallback (demo_env demo_exchange True) (Some '''') (startup []))) =
       Replied \<lparr>status = 400, sent = Send ''Authorization code is missing.''\<rparr>"
  by (simp add: handleCallback_def missing_code_def)

text \<open>
  Claim C4, amended. \<^verbatim>\<open>handleCallback\<close> answers 400 exactly when the \<^verbatim>\<open>code\<close>
  query parameter is absent or empty; the answer is then
  \<^verbatim>\<open>Authorization code is missing.\<close>, no outside call is made (no exchange, no
  store write), nothing is emitted and the state is unchanged. Every other invocation
  that does not succeed answers 500.
\<close>

theorem handleCallback_missing_code_iff:
  "((\<exists>b. outcome (fst (handleCallback env code s)) = Replied \<lparr>status = 400, sent = b\<rparr>)
      = falsy code)
   \<and> (falsy code \<longrightarrow>
        handleCallback env code s =
          (\<lparr>outcome = Replied \<lparr>status = 400, sent = Send ''Authorization code is missing.''\<rparr>,
            calls = [], signal = Not_emitted, released = []\<rparr>, s))
   \<and> (\<not> falsy code \<and> outcome (fst (handleCallback env code s)) \<noteq>
          Replied \<lparr>status = 200, sent = Send_confirmation_page\<rparr> \<longrightarrow>
        outcome (fst (handleCallback env code s)) =
          Replied \<lparr>status = 500, sent = Send ''An error occurred during authentication.''\<rparr>)"
  by (auto simp: handleCallback_def handleCallback_catch_def missing_code_def Let_def
           split: option.splits sum.splits if_splits)

theorem handleCallback_missing_code_iff_witness:
  "falsy (Some '''')
   \<and> handleCallback (demo_env demo_exchange True) (Some '''')
        (\<lparr>store = [], credentials = Some ''old'', listeners = [1]\<rparr>) =
       (\<lparr>outcome = Replied \<lparr>status = 400, sent = Send ''Authorization code is missing.''\<rparr>,
         calls = [], signal = Not_emitted, released = []\<rparr>,
        \<lparr>store = [], credentials = Some ''old'', listeners = [1]\<rparr>)
   \<and> \<not> falsy (Some ''XYZ'')
   \<and> outcome (fst (handleCallback (demo_env demo_exchange True) (Some ''XYZ'')
        (\<lparr>store = [], credentials = Some ''old'', listeners = [1]\<rparr>))) =
       Replied \<lparr>status = 500, sent = Send ''An error occurred during authentication.''\<rparr>"
proof -
  let ?s = "\<lparr>store = [], credentials = Some ''old'', listeners = [1]\<rparr> :: string state"
  have f: "falsy (Some '''')" by simp
  have t: "\<not> falsy (Some ''XYZ'')
      \<and> outcome (fst (handleCallback (demo_env demo_exchange True) (Some ''XYZ'') ?s)) \<noteq>
          Replied \<lparr>status = 200, sent = Send_confirmation_page\<rparr>"
    by (simp add: handleCallback_def handleCallback_catch_def demo_env_def demo_exchange_def)
  show ?thesis
    using f t
      handleCallback_missing_code_iff [of "demo_env demo_exchange True" "Some ''''" ?s]
      handleCallback_missing_code_iff [of "demo_env demo_exchange True" "Some ''XYZ''" ?s]
    by simp
qed

text \<open>
  Claim C3. With an authorization code (a non-empty \<^verbatim>\<open>code\<close> parameter) in the
  request, whatever listeners are pending, \<^verbatim>\<open>handleCallback\<close> first asks the
  provider to exchange that code. When the exchange
  returns credentials they become the active set; when the store then accepts the
  write, the answer is 200 with the confirmation page, \<^verbatim>\<open>tokensSaved\<close> is emitted
  without an error, every suspended \<^verbatim>\<open>authorize\<close> request is answered with
  \<^verbatim>\<open>Authorization completed, token saved.\<close> and no listener stays registered. The
  store is the old one after \<^verbatim>\<open>findOneAndUpdate\<close> on the fixed email with the
  serialized credentials: the record of that email now carries that token (an existing
  record keeps its other fields, a missing one is created, and only then does the
  collection grow), and the records of other emails are as before.
\<close>

theorem handleCallback_code_present:
  assumes "code = Some c" and "c \<noteq> []"
  shows "(\<exists>cs. calls (fst (handleCallback env code s)) = OAuth2_getToken c # cs)
       \<and> (\<forall>tokens. getToken env c = Inr tokens \<longrightarrow>
            credentials (snd (handleCallback env code s)) = Some tokens
          \<and> (mongo_up env \<longrightarrow>
               outcome (fst (handleCallback env code s)) =
                 Replied \<lparr>status = 200, sent = Send_confirmation_page\<rparr>
             \<and> signal (fst (handleCallback env code s)) = Emitted None
             \<and> released (fst (handleCallback env code s)) =
                 map (\<lambda>rid. (rid, \<lparr>status = 200,
                                     sent = Send ''Authorization completed, token saved.''\<rparr>))
                   (listeners s)
             \<and> listeners (snd (handleCallback env code s)) = []
             \<and> store (snd (handleCallback env code s)) =
                 findOneAndUpdate (store s) ''irctcvivek62@gmail.com'' (JSON_stringify env tokens)
             \<and> findOne (store (snd (handleCallback env code s))) ''irctcvivek62@gmail.com'' =
                 Some (case findOne (store s) ''irctcvivek62@gmail.com'' of
                         None \<Rightarrow> \<lparr>name = None, email = ''irctcvivek62@gmail.com'',
                                    context' = None, token = JSON_stringify env tokens\<rparr>
                       | Some r \<Rightarrow> r\<lparr>token := JSON_stringify env tokens\<rparr>)
             \<and> length (store (snd (handleCallback env code s))) =
                 (if findOne (store s) ''irctcvivek62@gmail.com'' = None
                  then Suc (length (store s)) else length (store s))
             \<and> (\<forall>e. e \<noteq> ''irctcvivek62@gmail.com'' \<longrightarrow>
                  findOne (store (snd (handleCallback env code s))) e = findOne (store s) e)))"
proof -
  have first: "\<exists>cs. calls (fst (handleCallback env code s)) = OAuth2_getToken c # cs"
    using assms
    by (simp add: handleCallback_def handleCallback_catch_def Let_def split: sum.splits)
  have adopt: "credentials (snd (handleCallback env code s)) = Some tokens"
    if "getToken env c = Inr tokens" for tokens
    using assms that by (simp add: handleCallback_def handleCallback_catch_def Let_def)
  have whole: "handleCallback env code s =
     (\<lparr>outcome = Replied \<lparr>status = 200, sent = Send_confirmation_page\<rparr>,
       calls = [OAuth2_getToken c, Context_findOneAndUpdate],
       signal = Emitted None,
       released = emit_tokensSaved None (listeners s)\<rparr>,
      s\<lparr>credentials := Some tokens,
        store := findOneAndUpdate (store s) ''irctcvivek62@gmail.com'' (JSON_stringify env tokens),
        listeners := []\<rparr>)"
    if "getToken env c = Inr tokens" and "mongo_up env" for tokens
    using assms that by (simp add: handleCallback_success)
  show ?thesis
    using first adopt whole
    by (simp add: emit_tokensSaved_def findOne_findOneAndUpdate
          findOne_findOneAndUpdate_other length_findOneAndUpdate)
qed

theorem handleCallback_code_present_witness:
  "Some ''ABC'' = Some ''ABC'' \<and> ''ABC'' \<noteq> []
   \<and> handleCallback (demo_env demo_exchange True) (Some ''ABC'')
        (\<lparr>store = [\<lparr>name = Some ''A'', email = ''a@x.com'', context' = Some ''hello'',
                     token = '' ''\<rparr>],
          credentials = None, listeners = [1, 2]\<rparr>) =
      (\<lparr>outcome = Replied \<lparr>status = 200, sent = Send_confirmation_page\<rparr>,
        calls = [OAuth2_getToken ''ABC'', Context_findOneAndUpdate],
        signal = Emitted None,
        released =
          [(1, \<lparr>status = 200, sent = Send ''Authorization completed, token saved.''\<rparr>),
           (2, \<lparr>status = 200, sent = Send ''Authorization completed, token saved.''\<rparr>)]\<rparr>,
       \<lparr>store = [\<lparr>name = Some ''A'', email = ''a@x.com'', context' = Some ''hello'',
                    token = '' ''\<rparr>,
                  \<lparr>name = None, email = ''irctcvivek62@gmail.com'', context' = None,
                    token = demo_stringify ''ya29''\<rparr>],
         credentials = Some ''ya29'', listeners = []\<rparr>)"
proof -
  let ?s = "\<lparr>store = [\<lparr>name = Some ''A'', email = ''a@x.com'', context' = Some ''hello'',
                     token = '' ''\<rparr>],
          credentials = None, listeners = [1, 2]\<rparr> :: string state"
  let ?env = "demo_env demo_exchange True"
  have c: "Some ''ABC'' = Some ''ABC''" and n: "''ABC'' \<noteq> []" by simp_all
  have x: "getToken ?env ''ABC'' = Inr ''ya29''" and up: "mongo_up ?env"
    by (simp_all add: demo_env_def demo_exchange_def)
  have eq: "r = r'" if "outcome r = outcome r'" and "calls r = calls r'"
      and "signal r = signal r'" and "released r = released r'"
    for r r' :: callback_handled
    using that by simp
  have eqs: "t = t'" if "store t = store t'" and "credentials t = credentials t'"
      and "listeners t = listeners t'"
    for t t' :: "string state"
    using that by simp
  from handleCallback_code_present [OF c n, of ?env ?s] x up
  have *: "calls (fst (handleCallback ?env (Some ''ABC'') ?s)) \<noteq> []
    \<and> credentials (snd (handleCallback ?env (Some ''ABC'') ?s)) = Some ''ya29''
    \<and> outcome (fst (handleCallback ?env (Some ''ABC'') ?s)) =
        Replied \<lparr>status = 200, sent = Send_confirmation_page\<rparr>
    \<and> signal (fst (handleCallback ?env (Some ''ABC'') ?s)) = Emitted None
    \<and> released (fst (handleCallback ?env (Some ''ABC'') ?s)) =
        [(1, \<lparr>status = 200, sent = Send ''Authorization completed, token saved.''\<rparr>),
         (2, \<lparr>status = 200, sent = Send ''Authorization completed, token saved.''\<rparr>)]
    \<and> listeners (snd (handleCallback ?env (Some ''ABC'') ?s)) = []
    \<and> store (snd (handleCallback ?env (Some ''ABC'') ?s)) =
        [\<lparr>name = Some ''A'', email = ''a@x.com'', context' = Some ''hello'', token = '' ''\<rparr>,
         \<lparr>name = None, email = ''irctcvivek62@gmail.com'', context' = None,
           token = demo_stringify ''ya29''\<rparr>]"
    by (auto simp: demo_env_def)
  have cs: "calls (fst (handleCallback ?env (Some ''ABC'') ?s)) =
      [OAuth2_getToken ''ABC'', Context_findOneAndUpdate]"
    by (simp add: handleCallback_def demo_env_def demo_exchange_def)
  show ?thesis
    using * cs by (auto intro!: prod_eqI eq eqs)
qed

section \<open>The two paths of \<^verbatim>\<open>authorize\<close>\<close>

lemma authorize_handshake:
  assumes "mongo_up env"
    and "findOne (store s) emailId = None \<or>
         (\<exists>u. findOne (store s) emailId = Some u \<and> token u = '' '')"
  shows "authorize env rid s =
           (\<lparr>outcome = Suspended, calls = [Context_findOne, OpenURL_open]\<rparr>,
            s\<lparr>listeners := listeners s @ [rid]\<rparr>)"
  using assms by (auto simp: authorize_def getNewToken_def)

lemma authorize_token_present:
  assumes "mongo_up env" and "findOne (store s) emailId = Some u" and "token u \<noteq> '' ''"
    and "JSON_parse env (token u) = Some creds"
  shows "authorize env rid s =
           (\<lparr>outcome = Replied \<lparr>status = 200,
                 sent = Send ''Token already exists, authorization successful.''\<rparr>,
             calls = [Context_findOne]\<rparr>,
            s\<lparr>credentials := Some creds\<rparr>)"
  using assms by (simp add: authorize_def)

lemma handleCallback_releases:
  assumes "rid \<in> set (listeners s)" and "c \<noteq> []"
  shows "getToken env c = Inr tokens \<and> mongo_up env \<longrightarrow>
           (rid, \<lparr>status = 200, sent = Send ''Authorization completed, token saved.''\<rparr>)
             \<in> set (released (fst (handleCallback env (Some c) s)))"
    and "getToken env c = Inl err \<or> \<not> mongo_up env \<longrightarrow>
           (rid, \<lparr>status = 500, sent = Send ''Authorization failed.''\<rparr>)
             \<in> set (released (fst (handleCallback env (Some c) s)))"
  using assms
  by (auto simp: handleCallback_def handleCallback_catch_def emit_tokensSaved_def Let_def
           split: sum.splits)

text \<open>
  Claim C2. Whatever is stored when \<^verbatim>\<open>authorize\<close> is invoked and the lookup
  answers: with no record for the fixed identity, or with one whose token is the blank
  sentinel, \<^verbatim>\<open>authorize\<close> opens the authorization URL, registers its listener and
  stays open; a callback that then succeeds answers it with
  \<^verbatim>\<open>Authorization completed, token saved.\<close>, and one that fails in the exchange or
  in the store answers it with a 500. With a record whose token is not blank and
  parses, \<^verbatim>\<open>authorize\<close> adopts the parsed credentials, answers
  \<^verbatim>\<open>Token already exists, authorization successful.\<close>, and starts no handshake: its
  one outside call is the lookup and the listeners are as before.
\<close>

theorem authorize_paths:
  assumes "mongo_up env"
  shows "(findOne (store s) emailId = None \<or>
          (\<exists>u. findOne (store s) emailId = Some u \<and> token u = '' '') \<longrightarrow>
            authorize env rid s =
              (\<lparr>outcome = Suspended, calls = [Context_findOne, OpenURL_open]\<rparr>,
               s\<lparr>listeners := listeners s @ [rid]\<rparr>)
          \<and> (\<forall>env' c tokens. c \<noteq> [] \<and> getToken env' c = Inr tokens \<and> mongo_up env' \<longrightarrow>
                (rid, \<lparr>status = 200, sent = Send ''Authorization completed, token saved.''\<rparr>)
                  \<in> set (released (fst (handleCallback env' (Some c) (snd (authorize env rid s))))))
          \<and> (\<forall>env' c err. c \<noteq> [] \<and> (getToken env' c = Inl err \<or> \<not> mongo_up env') \<longrightarrow>
                (rid, \<lparr>status = 500, sent = Send ''Authorization failed.''\<rparr>)
                  \<in> set (released (fst (handleCallback env' (Some c) (snd (authorize env rid s)))))))
       \<and> (\<forall>u creds. findOne (store s) emailId = Some u \<and> token u \<noteq> '' ''
              \<and> JSON_parse env (token u) = Some creds \<longrightarrow>
            authorize env rid s =
              (\<lparr>outcome = Replied \<lparr>status = 200,
                    sent = Send ''Token already exists, authorization successful.''\<rparr>,
                calls = [Context_findOne]\<rparr>,
               s\<lparr>credentials := Some creds\<rparr>))"
proof -
  have a: "authorize env rid s =
              (\<lparr>outcome = Suspended, calls = [Context_findOne, OpenURL_open]\<rparr>,
               s\<lparr>listeners := listeners s @ [rid]\<rparr>)"
    if "findOne (store s) emailId = None \<or>
          (\<exists>u. findOne (store s) emailId = Some u \<and> token u = '' '')"
    using authorize_handshake [OF assms that] .
  have r: "rid \<in> set (listeners (s\<lparr>listeners := listeners s @ [rid]\<rparr>))" by simp
  note rel = handleCallback_releases [OF r]
  have b: "authorize env rid s =
              (\<lparr>outcome = Replied \<lparr>status = 200,
                    sent = Send ''Token already exists, authorization successful.''\<rparr>,
                calls = [Context_findOne]\<rparr>,
               s\<lparr>credentials := Some creds\<rparr>)"
    if "findOne (store s) emailId = Some u" and "token u \<noteq> '' ''"
      and "JSON_parse env (token u) = Some creds" for u creds
    using authorize_token_present [OF assms that] .
  show ?thesis
  proof (intro conjI impI allI)
    assume h: "findOne (store s) emailId = None \<or>
          (\<exists>u. findOne (store s) emailId = Some u \<and> token u = '' '')"
    show "authorize env rid s =
              (\<lparr>outcome = Suspended, calls = [Context_findOne, OpenURL_open]\<rparr>,
               s\<lparr>listeners := listeners s @ [rid]\<rparr>)"
      using a [OF h] .
    show "(rid, \<lparr>status = 200, sent = Send ''Authorization completed, token saved.''\<rparr>)
            \<in> set (released (fst (handleCallback env' (Some c) (snd (authorize env rid s)))))"
      if "c \<noteq> [] \<and> getToken env' c = Inr tokens \<and> mongo_up env'" for env' c tokens
      using that rel(1) [of c env' tokens] by (simp add: a [OF h])
    show "(rid, \<lparr>status = 500, sent = Send ''Authorization failed.''\<rparr>)
            \<in> set (released (fst (handleCallback env' (Some c) (snd (authorize env rid s)))))"
      if "c \<noteq> [] \<and> (getToken env' c = Inl err \<or> \<not> mongo_up env')" for env' c err
      using that rel(2) [of c env' err] by (simp add: a [OF h])
  next
    fix u creds
    assume "findOne (store s) emailId = Some u \<and> token u \<noteq> '' ''
              \<and> JSON_parse env (token u) = Some creds"
    then show "authorize env rid s =
              (\<lparr>outcome = Replied \<lparr>status = 200,
                    sent = Send ''Token already exists, authorization successful.''\<rparr>,
                calls = [Context_findOne]\<rparr>,
               s\<lparr>credentials := Some creds\<rparr>)"
      using b by blast
  qed
qed

theorem authorize_paths_witness:
  "mongo_up (demo_env demo_exchange True)
   \<and> authorize (demo_env demo_exchange True) 5
        (\<lparr>store = [\<lparr>name = Some ''V'', email = ''irctcvivek62@gmail.com'',
                     context' = Some ''hi'', token = '' ''\<rparr>],
          credentials = None, listeners = []\<rparr>) =
       (\<lparr>outcome = Suspended, calls = [Context_findOne, OpenURL_open]\<rparr>,
        \<lparr>store = [\<lparr>name = Some ''V'', email = ''irctcvivek62@gmail.com'',
                     context' = Some ''hi'', token = '' ''\<rparr>],
          credentials = None, listeners = [5]\<rparr>)
   \<and> (5, \<lparr>status = 200, sent = Send ''Authorization completed, token saved.''\<rparr>)
        \<in> set (released (fst (handleCallback (demo_env demo_exchange True) (Some ''ABC'')
             (snd (authorize (demo_env demo_exchange True) 5
               (\<lparr>store = [\<lparr>name = Some ''V'', email = ''irctcvivek62@gmail.com'',
                            context' = Some ''hi'', token = '' ''\<rparr>],
                 credentials = None, listeners = []\<rparr>))))))
   \<and> (5, \<lparr>status = 500, sent = Send ''Authorization failed.''\<rparr>)
        \<in> set (released (fst (handleCallback (demo_env demo_exchange True) (Some ''XYZ'')
             (snd (authorize (demo_env demo_exchange True) 5
               (\<lparr>store = [\<lparr>name = Some ''V'', email = ''irctcvivek62@gmail.com'',
                            context' = Some ''hi'', token = '' ''\<rparr>],
                 credentials = None, listeners = []\<rparr>))))))
   \<and> authorize (demo_env demo_exchange True) 5
        (\<lparr>store = [\<lparr>name = None, email = ''irctcvivek62@gmail.com'', context' = None,
                     token = demo_stringify ''ya29''\<rparr>],
          credentials = None, listeners = []\<rparr>) =
       (\<lparr>outcome = Replied \<lparr>status = 200,
             sent = Send ''Token already exists, authorization successful.''\<rparr>,
         calls = [Context_findOne]\<rparr>,
        \<lparr>store = [\<lparr>name = None, email = ''irctcvivek62@gmail.com'', context' = None,
                     token = demo_stringify ''ya29''\<rparr>],
          credentials = Some ''ya29'', listeners = []\<rparr>)"
proof -
  let ?env = "demo_env demo_exchange True"
  let ?blank = "\<lparr>store = [\<lparr>name = Some ''V'', email = ''irctcvivek62@gmail.com'',
                     context' = Some ''hi'', token = '' ''\<rparr>],
          credentials = None, listeners = []\<rparr> :: string state"
  let ?tok = "\<lparr>store = [\<lparr>name = None, email = ''irctcvivek62@gmail.com'', context' = None,
                     token = demo_stringify ''ya29''\<rparr>],
          credentials = None, listeners = []\<rparr> :: string state"
  have up: "mongo_up ?env" by (simp add: demo_env_def)
  have x: "getToken ?env ''ABC'' = Inr ''ya29''" "getToken ?env ''XYZ'' = Inl GetTokenError"
    by (simp_all add: demo_env_def demo_exchange_def)
  have b: "findOne (store ?blank) emailId = None \<or>
          (\<exists>u. findOne (store ?blank) emailId = Some u \<and> token u = '' '')"
    by (simp add: emailId_def)
  have t: "findOne (store ?tok) emailId =
             Some \<lparr>name = None, email = ''irctcvivek62@gmail.com'', context' = None,
                   token = demo_stringify ''ya29''\<rparr>
           \<and> demo_stringify ''ya29'' \<noteq> '' ''
           \<and> JSON_parse ?env (demo_stringify ''ya29'') = Some ''ya29''"
    by (simp add: emailId_def demo_env_def demo_parse_def demo_stringify_def)
  from authorize_paths [OF up, of ?blank 5] b up x
  have 1: "authorize ?env 5 ?blank =
       (\<lparr>outcome = Suspended, calls = [Context_findOne, OpenURL_open]\<rparr>,
        ?blank\<lparr>listeners := listeners ?blank @ [5]\<rparr>)"
    and 2: "(5, \<lparr>status = 200, sent = Send ''Authorization completed, token saved.''\<rparr>)
        \<in> set (released (fst (handleCallback ?env (Some ''ABC'') (snd (authorize ?env 5 ?blank)))))"
    and 3: "(5, \<lparr>status = 500, sent = Send ''Authorization failed.''\<rparr>)
        \<in> set (released (fst (handleCallback ?env (Some ''XYZ'') (snd (authorize ?env 5 ?blank)))))"
    by blast+
  from authorize_paths [OF up, of ?tok 5] t
  have 4: "authorize ?env 5 ?tok =
       (\<lparr>outcome = Replied \<lparr>status = 200,
             sent = Send ''Token already exists, authorization successful.''\<rparr>,
         calls = [Context_findOne]\<rparr>,
        ?tok\<lparr>credentials := Some ''ya29''\<rparr>)"
    by simp
  show ?thesis using up 1 2 3 4 by simp
qed

section \<open>Round trip of the token through the store\<close>

lemma findOne_append:
  "findOne (d @ d') e = (case findOne d e of None \<Rightarrow> findOne d' e | Some r \<Rightarrow> Some r)"
  by (induction d) auto

lemma findOne_save:
  "save d r = Inr d' \<Longrightarrow> findOne d e = Some u \<Longrightarrow> findOne d' e = Some u"
  by (auto simp: save_def findOne_append split: option.splits)

lemma findOne_handle_kept:
  assumes "\<not> is_Callback (snd r)" and "findOne (store s) e = Some u"
  shows "findOne (store (handle r s)) e = Some u"
proof (cases r)
  case (Pair env q)
  show ?thesis
  proof (cases q)
    case (Authorize rid)
    with Pair assms show ?thesis by (simp add: store_authorize)
  next
    case (Callback code)
    with Pair assms show ?thesis by simp
  next
    case (SaveContext b)
    with Pair assms store_saveContext_cases [of env b s] show ?thesis
      by (auto dest: findOne_save)
  qed
qed

lemma findOne_run_kept:
  "\<forall>r \<in> set rs. \<not> is_Callback (snd r) \<Longrightarrow> findOne (store s) e = Some u \<Longrightarrow>
   findOne (store (run rs s)) e = Some u"
  by (induction rs arbitrary: s) (auto simp: findOne_handle_kept)

text \<open>
  Claim C6. Let \<^verbatim>\<open>handleCallback\<close> succeed with the credentials that the exchange
  returned, and let any requests other than callbacks follow. The record that a later
  \<^verbatim>\<open>authorize\<close> reads for the fixed identity carries exactly the string that
  \<^verbatim>\<open>handleCallback\<close> serialized, and when the runtime's \<^verbatim>\<open>JSON.parse\<close> inverts its
  \<^verbatim>\<open>JSON.stringify\<close> on those credentials (and rejects the blank sentinel), what
  \<^verbatim>\<open>authorize\<close> parses and adopts is the credential set of the exchange.
\<close>

theorem token_round_trip:
  assumes "c \<noteq> []" and "getToken env c = Inr tokens" and "mongo_up env"
    and "\<forall>r \<in> set rs. \<not> is_Callback (snd r)"
    and "mongo_up env'"
    and "JSON_parse env' (JSON_stringify env tokens) = Some tokens"
    and "JSON_parse env' '' '' = None"
  shows "(\<exists>u. findOne (store (run rs (snd (handleCallback env (Some c) s)))) emailId = Some u
             \<and> token u = JSON_stringify env tokens
             \<and> JSON_parse env' (token u) = Some tokens)
       \<and> authorize env' rid (run rs (snd (handleCallback env (Some c) s))) =
           (\<lparr>outcome = Replied \<lparr>status = 200,
                 sent = Send ''Token already exists, authorization successful.''\<rparr>,
             calls = [Context_findOne]\<rparr>,
            (run rs (snd (handleCallback env (Some c) s)))\<lparr>credentials := Some tokens\<rparr>)"
proof -
  let ?s1 = "snd (handleCallback env (Some c) s)"
  let ?t = "JSON_stringify env tokens"
  have "store ?s1 = findOneAndUpdate (store s) ''irctcvivek62@gmail.com'' ?t"
    using assms(1-3) by (simp add: handleCallback_success)
  then obtain u where u: "findOne (store ?s1) emailId = Some u" and tu: "token u = ?t"
    by (auto simp: emailId_def findOne_findOneAndUpdate split: option.splits)
  have kept: "findOne (store (run rs ?s1)) emailId = Some u"
    using findOne_run_kept [OF assms(4) u] .
  have nb: "token u \<noteq> '' ''"
    using assms(6,7) tu by auto
  have p: "JSON_parse env' (token u) = Some tokens"
    using assms(6) tu by simp
  show ?thesis
    using kept tu p authorize_token_present [OF assms(5) kept nb p] by simp
qed

theorem token_round_trip_witness:
  "''ABC'' \<noteq> [] \<and> getToken (demo_env demo_exchange True) ''ABC'' = Inr ''ya29''
   \<and> mongo_up (demo_env demo_exchange True)
   \<and> JSON_parse (demo_env demo_exchange True)
        (JSON_stringify (demo_env demo_exchange True) ''ya29'') = Some ''ya29''
   \<and> JSON_parse (demo_env demo_exchange True) '' '' = None
   \<and> outcome (fst (authorize (demo_env demo_exchange True) 4
        (run [(demo_env demo_exchange True,
               SaveContext \<lparr>body_context = Some ''hi'', body_name = Some ''V'',
                             body_emailId = Some ''irctcvivek62@gmail.com''\<rparr>),
              (demo_env demo_exchange True, Authorize 9)]
           (snd (handleCallback (demo_env demo_exchange True) (Some ''ABC'') (startup [])))))) =
       Replied \<lparr>status = 200, sent = Send ''Token already exists, authorization successful.''\<rparr>
   \<and> credentials (snd (authorize (demo_env demo_exchange True) 4
        (run [(demo_env demo_exchange True,
               SaveContext \<lparr>body_context = Some ''hi'', body_name = Some ''V'',
                             body_emailId = Some ''irctcvivek62@gmail.com''\<rparr>),
              (demo_env demo_exchange True, Authorize 9)]
           (snd (handleCallback (demo_env demo_exchange True) (Some ''ABC'') (startup [])))))) =
       Some ''ya29''"
proof -
  let ?env = "demo_env demo_exchange True"
  let ?rs = "[(?env, SaveContext \<lparr>body_context = Some ''hi'', body_name = Some ''V'',
                             body_emailId = Some ''irctcvivek62@gmail.com''\<rparr>),
              (?env, Authorize 9)]"
  have c: "''ABC'' \<noteq> []" by simp
  have x: "getToken ?env ''ABC'' = Inr ''ya29''" and up: "mongo_up ?env"
    by (simp_all add: demo_env_def demo_exchange_def)
  have rs: "\<forall>r \<in> set ?rs. \<not> is_Callback (snd r)" by simp
  have rt: "JSON_parse ?env (JSON_stringify ?env ''ya29'') = Some ''ya29''"
    by (simp add: demo_env_def demo_parse_def demo_stringify_def)
  have bl: "JSON_parse ?env '' '' = None"
    by (simp add: demo_env_def demo_parse_def)
  show ?thesis
    using c x up rt bl token_round_trip [OF c x up rs up rt bl, where rid = 4 and s = "startup []"]
    by simp
qed

section \<open>Uniqueness of \<^verbatim>\<open>email\<close>\<close>

text \<open>
  Claim C8. In a collection with at most one record per email, \<^verbatim>\<open>saveContext\<close>'s
  insert and \<^verbatim>\<open>handleCallback\<close>'s upsert both leave at most one record per email,
  and so does every sequence of requests; the server's empty start is such a
  collection. A context saved for an identity that already has a record is refused by
  the unique index and changes nothing.
\<close>

theorem email_unique_preserved:
  assumes "email_unique (store s)"
  shows "email_unique (store (snd (saveContext env b s)))
       \<and> email_unique (store (snd (handleCallback env code s)))
       \<and> email_unique (store (run rs s))
       \<and> email_unique (store (run rs (startup [])))
       \<and> (\<forall>e u. body_emailId b = Some e \<and> findOne (store s) e = Some u \<longrightarrow>
            store (snd (saveContext env b s)) = store s)"
proof -
  have 1: "email_unique (store (snd (saveContext env b s)))"
    using email_unique_handle [OF assms, of "(env, SaveContext b)"] by simp
  have 2: "email_unique (store (snd (handleCallback env code s)))"
    using email_unique_handle [OF assms, of "(env, Callback code)"] by simp
  have 3: "store (snd (saveContext env b s)) = store s"
    if "body_emailId b = Some e" and "findOne (store s) e = Some u" for e u
    using that
    by (simp add: saveContext_def missing_fields_def save_def Let_def
          split: option.splits)
  have 4: "email_unique (store (run rs (startup [])))"
    by (rule email_unique_run) (simp add: email_unique_def startup_def)
  show ?thesis
    using 1 2 3 4 email_unique_run [OF assms] by blast
qed

theorem email_unique_preserved_witness:
  "email_unique (store (startup [] :: string state))
   \<and> store (run [(demo_env demo_exchange True,
                   SaveContext \<lparr>body_context = Some ''hi'', body_name = Some ''V'',
                                 body_emailId = Some ''irctcvivek62@gmail.com''\<rparr>),
                  (demo_env demo_exchange True, Callback (Some ''ABC'')),
                  (demo_env demo_exchange True,
                   SaveContext \<lparr>body_context = Some ''again'', body_name = Some ''W'',
                                 body_emailId = Some ''irctcvivek62@gmail.com''\<rparr>)]
             (startup [])) =
       [\<lparr>name = Some ''V'', email = ''irctcvivek62@gmail.com'', context' = Some ''hi'',
          token = demo_stringify ''ya29''\<rparr>]
   \<and> email_unique (store (run [(demo_env demo_exchange True,
                   SaveContext \<lparr>body_context = Some ''hi'', body_name = Some ''V'',
                                 body_emailId = Some ''irctcvivek62@gmail.com''\<rparr>),
                  (demo_env demo_exchange True, Callback (Some ''ABC'')),
                  (demo_env demo_exchange True,
                   SaveContext \<lparr>body_context = Some ''again'', body_name = Some ''W'',
                                 body_emailId = Some ''irctcvivek62@gmail.com''\<rparr>)]
             (startup [] :: string state)))"
proof -
  have u: "email_unique (store (startup [] :: string state))"
    by (simp add: email_unique_def startup_def)
  have r: "store (run [(demo_env demo_exchange True,
                   SaveContext \<lparr>body_context = Some ''hi'', body_name = Some ''V'',
                                 body_emailId = Some ''irctcvivek62@gmail.com''\<rparr>),
                  (demo_env demo_exchange True, Callback (Some ''ABC'')),
                  (demo_env demo_exchange True,
                   SaveContext \<lparr>body_context = Some ''again'', body_name = Some ''W'',
                                 body_emailId = Some ''irctcvivek62@gmail.com''\<rparr>)]
             (startup [])) =
       [\<lparr>name = Some ''V'', email = ''irctcvivek62@gmail.com'', context' = Some ''hi'',
          token = demo_stringify ''ya29''\<rparr>]"
    by (simp add: startup_def saveContext_def handleCallback_def save_def token_default_def
          demo_env_def demo_exchange_def)
  show ?thesis
    using u r email_unique_preserved [OF u] by blast
qed

section \<open>\<^verbatim>\<open>saveContext\<close>\<close>

text \<open>
  Claim C9 says that the 400 answer is sent exactly when one of the three fields is
  missing. The guard is \<^verbatim>\<open>!context || !name || !emailId\<close>, which also holds for a
  field that is present and empty: a body with all three fields, \<^verbatim>\<open>context\<close> being
  the empty string, gets the 400.
\<close>

theorem saveContext_empty_field_400:
  "body_context \<lparr>body_context = Some '''', body_name = Some ''A'',
                  body_emailId = Some ''a@x.com''\<rparr> \<noteq> None
   \<and> body_name \<lparr>body_context = Some '''', body_name = Some ''A'',
                  body_emailId = Some ''a@x.com''\<rparr> \<noteq> None
   \<and> body_emailId \<lparr>body_context = Some '''', body_name = Some ''A'',
                  body_emailId = Some ''a@x.com''\<rparr> \<noteq> None
   \<and> saveContext (demo_env demo_exchange True)
        \<lparr>body_context = Some '''', body_name = Some ''A'', body_emailId = Some ''a@x.com''\<rparr>
        (startup []) =
       (\<lparr>outcome = Replied \<lparr>status = 400, sent = Json_message ''Missing required fields''\<rparr>,
         calls = []\<rparr>, startup [])"
  by (simp add: saveContext_def missing_fields_def)

text \<open>
  Claim C9, amended. \<^verbatim>\<open>saveContext\<close> answers 400 exactly when one of the three
  fields is absent or empty, with \<^verbatim>\<open>Missing required fields\<close> and no store call.
  Otherwise it inserts a new record with the given fields and the blank token: when the
  store accepts it (the database answers and no record has that email), the answer is
  200 \<^verbatim>\<open>Context saved successfully\<close> and the collection is the old one with that
  record appended; when the store refuses, the answer is 500 and nothing changes, no
  existing record is updated.
\<close>

theorem saveContext_cases:
  "((\<exists>m. outcome (fst (saveContext env b s)) = Replied \<lparr>status = 400, sent = m\<rparr>)
      = (falsy (body_context b) \<or> falsy (body_name b) \<or> falsy (body_emailId b)))
   \<and> (falsy (body_context b) \<or> falsy (body_name b) \<or> falsy (body_emailId b) \<longrightarrow>
        saveContext env b s =
          (\<lparr>outcome = Replied \<lparr>status = 400, sent = Json_message ''Missing required fields''\<rparr>,
            calls = []\<rparr>, s))
   \<and> (\<forall>c n e. body_context b = Some c \<and> body_name b = Some n \<and> body_emailId b = Some e
          \<and> c \<noteq> [] \<and> n \<noteq> [] \<and> e \<noteq> [] \<longrightarrow>
        (mongo_up env \<and> findOne (store s) e = None \<longrightarrow>
           saveContext env b s =
             (\<lparr>outcome = Replied \<lparr>status = 200,
                   sent = Json_message ''Context saved successfully''\<rparr>,
               calls = [Context_save]\<rparr>,
              s\<lparr>store := store s @ [\<lparr>name = Some n, email = e, context' = Some c,
                                       token = '' ''\<rparr>]\<rparr>))
      \<and> (\<not> mongo_up env \<or> findOne (store s) e \<noteq> None \<longrightarrow>
           saveContext env b s =
             (\<lparr>outcome = Replied \<lparr>status = 500, sent = Json_message ''Failed to save context''\<rparr>,
               calls = [Context_save]\<rparr>, s)))"
proof -
  have m: "saveContext env b s = missing_fields s"
    if "falsy (body_context b) \<or> falsy (body_name b) \<or> falsy (body_emailId b)"
    using that
    by (cases "body_context b"; cases "body_name b"; cases "body_emailId b")
       (auto simp: saveContext_def)
  have p: "saveContext env b s =
      (case (if mongo_up env
             then save (store s) \<lparr>name = Some n, email = e, context' = Some c,
                                   token = token_default\<rparr>
             else Inl MongoError) of
         Inl err \<Rightarrow>
           (\<lparr>outcome = Replied \<lparr>status = 500, sent = Json_message ''Failed to save context''\<rparr>,
             calls = [Context_save]\<rparr>, s)
       | Inr d \<Rightarrow>
           (\<lparr>outcome = Replied \<lparr>status = 200,
                 sent = Json_message ''Context saved successfully''\<rparr>,
             calls = [Context_save]\<rparr>,
            s\<lparr>store := d\<rparr>))"
    if "body_context b = Some c" and "body_name b = Some n" and "body_emailId b = Some e"
      and "c \<noteq> []" and "n \<noteq> []" and "e \<noteq> []" for c n e
    using that by (simp add: saveContext_def)
  have t: "\<not> (falsy (body_context b) \<or> falsy (body_name b) \<or> falsy (body_emailId b)) \<Longrightarrow>
      \<exists>c n e. body_context b = Some c \<and> body_name b = Some n \<and> body_emailId b = Some e
          \<and> c \<noteq> [] \<and> n \<noteq> [] \<and> e \<noteq> []"
    by (cases "body_context b"; cases "body_name b"; cases "body_emailId b") auto
  have iff: "(\<exists>m. outcome (fst (saveContext env b s)) = Replied \<lparr>status = 400, sent = m\<rparr>)
      = (falsy (body_context b) \<or> falsy (body_name b) \<or> falsy (body_emailId b))"
  proof (cases "falsy (body_context b) \<or> falsy (body_name b) \<or> falsy (body_emailId b)")
    case True
    then show ?thesis by (simp add: m missing_fields_def)
  next
    case False
    from t [OF False] obtain c n e where
      "body_context b = Some c" "body_name b = Some n" "body_emailId b = Some e"
      "c \<noteq> []" "n \<noteq> []" "e \<noteq> []" by blast
    from p [OF this] False show ?thesis
      by (auto split: sum.splits)
  qed
  show ?thesis
  proof (intro conjI impI allI)
    show "(\<exists>m. outcome (fst (saveContext env b s)) = Replied \<lparr>status = 400, sent = m\<rparr>)
      = (falsy (body_context b) \<or> falsy (body_name b) \<or> falsy (body_emailId b))"
      by (rule iff)
  next
    assume "falsy (body_context b) \<or> falsy (body_name b) \<or> falsy (body_emailId b)"
    then show "saveContext env b s =
          (\<lparr>outcome = Replied \<lparr>status = 400, sent = Json_message ''Missing required fields''\<rparr>,
            calls = []\<rparr>, s)"
      by (simp add: m missing_fields_def)
  next
    fix c n e
    assume h: "body_context b = Some c \<and> body_name b = Some n \<and> body_emailId b = Some e
          \<and> c \<noteq> [] \<and> n \<noteq> [] \<and> e \<noteq> []"
    assume "mongo_up env \<and> findOne (store s) e = None"
    with h p [of c n e] show "saveContext env b s =
             (\<lparr>outcome = Replied \<lparr>status = 200,
                   sent = Json_message ''Context saved successfully''\<rparr>,
               calls = [Context_save]\<rparr>,
              s\<lparr>store := store s @ [\<lparr>name = Some n, email = e, context' = Some c,
                                       token = '' ''\<rparr>]\<rparr>)"
      by (simp add: save_def token_default_def)
  next
    fix c n e
    assume h: "body_context b = Some c \<and> body_name b = Some n \<and> body_emailId b = Some e
          \<and> c \<noteq> [] \<and> n \<noteq> [] \<and> e \<noteq> []"
    assume "\<not> mongo_up env \<or> findOne (store s) e \<noteq> None"
    with h p [of c n e] show "saveContext env b s =
             (\<lparr>outcome = Replied \<lparr>status = 500, sent = Json_message ''Failed to save context''\<rparr>,
               calls = [Context_save]\<rparr>, s)"
      by (auto simp: save_def split: option.splits)
  qed
qed

theorem saveContext_cases_witness:
  "falsy (body_context \<lparr>body_context = None, body_name = Some ''A'',
                         body_emailId = Some ''a@x.com''\<rparr>)
   \<and> saveContext (demo_env demo_exchange True)
        \<lparr>body_context = None, body_name = Some ''A'', body_emailId = Some ''a@x.com''\<rparr>
        (startup []) =
       (\<lparr>outcome = Replied \<lparr>status = 400, sent = Json_message ''Missing required fields''\<rparr>,
         calls = []\<rparr>, startup [])
   \<and> saveContext (demo_env demo_exchange True)
        \<lparr>body_context = Some ''hi'', body_name = Some ''A'', body_emailId = Some ''a@x.com''\<rparr>
        (startup []) =
       (\<lparr>outcome = Replied \<lparr>status = 200, sent = Json_message ''Context saved successfully''\<rparr>,
         calls = [Context_save]\<rparr>,
        \<lparr>store = [\<lparr>name = Some ''A'', email = ''a@x.com'', context' = Some ''hi'',
                     token = '' ''\<rparr>],
          credentials = None, listeners = []\<rparr>)
   \<and> saveContext (demo_env demo_exchange True)
        \<lparr>body_context = Some ''hi'', body_name = Some ''A'', body_emailId = Some ''a@x.com''\<rparr>
        (\<lparr>store = [\<lparr>name = Some ''B'', email = ''a@x.com'', context' = Some ''old'',
                     token = '' ''\<rparr>],
          credentials = None, listeners = []\<rparr>) =
       (\<lparr>outcome = Replied \<lparr>status = 500, sent = Json_message ''Failed to save context''\<rparr>,
         calls = [Context_save]\<rparr>,
        \<lparr>store = [\<lparr>name = Some ''B'', email = ''a@x.com'', context' = Some ''old'',
                     token = '' ''\<rparr>],
          credentials = None, listeners = []\<rparr>)"
proof -
  let ?env = "demo_env demo_exchange True"
  let ?missing = "\<lparr>body_context = None, body_name = Some ''A'', body_emailId = Some ''a@x.com''\<rparr>"
  let ?b = "\<lparr>body_context = Some ''hi'', body_name = Some ''A'',
             body_emailId = Some ''a@x.com''\<rparr>"
  let ?s = "\<lparr>store = [\<lparr>name = Some ''B'', email = ''a@x.com'', context' = Some ''old'',
                     token = '' ''\<rparr>],
          credentials = None, listeners = []\<rparr> :: string state"
  have f: "falsy (body_context ?missing)" by simp
  have up: "mongo_up ?env" by (simp add: demo_env_def)
  have fresh: "findOne (store (startup [] :: string state)) ''a@x.com'' = None"
    by (simp add: startup_def)
  have dup: "findOne (store ?s) ''a@x.com'' \<noteq> None" by simp
  from f saveContext_cases [of ?env ?missing "startup []"]
  have 1: "saveContext ?env ?missing (startup []) =
       (\<lparr>outcome = Replied \<lparr>status = 400, sent = Json_message ''Missing required fields''\<rparr>,
         calls = []\<rparr>, startup [])"
    by blast
  from up fresh saveContext_cases [of ?env ?b "startup []"]
  have 2: "saveContext ?env ?b (startup []) =
       (\<lparr>outcome = Replied \<lparr>status = 200, sent = Json_message ''Context saved successfully''\<rparr>,
         calls = [Context_save]\<rparr>,
        (startup [])\<lparr>store := store (startup [] :: string state) @
           [\<lparr>name = Some ''A'', email = ''a@x.com'', context' = Some ''hi'', token = '' ''\<rparr>]\<rparr>)"
    by simp
  from dup saveContext_cases [of ?env ?b ?s]
  have 3: "saveContext ?env ?b ?s =
       (\<lparr>outcome = Replied \<lparr>status = 500, sent = Json_message ''Failed to save context''\<rparr>,
         calls = [Context_save]\<rparr>, ?s)"
    by simp
  show ?thesis using f 1 2 3 by (simp add: startup_def)
qed

section \<open>The blank sentinel\<close>

text \<open>
  Claim C10. The schema's default token is the string of one space. A record that
  \<^verbatim>\<open>saveContext\<close> creates carries it. \<^verbatim>\<open>authorize\<close> takes the handshake path
  exactly when the lookup answers and the record is absent or its token is that
  string; a stored token that is anything else and does not parse (the empty string,
  for a runtime whose \<^verbatim>\<open>JSON.parse\<close> throws on it) gets the 500 of the \<^verbatim>\<open>catch\<close>
  block, with no handshake started.
\<close>

theorem blank_sentinel:
  "token_default = [CHR 0x20]
   \<and> (outcome (fst (saveContext env b s)) =
         Replied \<lparr>status = 200, sent = Json_message ''Context saved successfully''\<rparr> \<longrightarrow>
       (\<exists>r. store (snd (saveContext env b s)) = store s @ [r] \<and> token r = [CHR 0x20]))
   \<and> ((outcome (fst (authorize env rid s)) = Suspended) =
        (mongo_up env \<and>
          (findOne (store s) emailId = None \<or>
           (\<exists>u. findOne (store s) emailId = Some u \<and> token u = [CHR 0x20]))))
   \<and> (\<forall>u. mongo_up env \<and> findOne (store s) emailId = Some u \<and> token u \<noteq> [CHR 0x20]
          \<and> JSON_parse env (token u) = None \<longrightarrow>
        authorize env rid s =
          (\<lparr>outcome = Replied \<lparr>status = 500, sent = Send ''Error during authorization.''\<rparr>,
            calls = [Context_findOne]\<rparr>, s))"
proof -
  have 1: "token_default = [CHR 0x20]" by (simp add: token_default_def)
  have 2: "\<exists>r. store (snd (saveContext env b s)) = store s @ [r] \<and> token r = [CHR 0x20]"
    if "outcome (fst (saveContext env b s)) =
         Replied \<lparr>status = 200, sent = Json_message ''Context saved successfully''\<rparr>"
    using that
    by (auto simp: saveContext_def missing_fields_def save_def token_default_def Let_def
          split: option.splits if_splits)
  have 3: "(outcome (fst (authorize env rid s)) = Suspended) =
        (mongo_up env \<and>
          (findOne (store s) emailId = None \<or>
           (\<exists>u. findOne (store s) emailId = Some u \<and> token u = [CHR 0x20])))"
    by (auto simp: authorize_def getNewToken_def authorize_error_def split: option.splits)
  have 4: "authorize env rid s =
          (\<lparr>outcome = Replied \<lparr>status = 500, sent = Send ''Error during authorization.''\<rparr>,
            calls = [Context_findOne]\<rparr>, s)"
    if "mongo_up env \<and> findOne (store s) emailId = Some u \<and> token u \<noteq> [CHR 0x20]
          \<and> JSON_parse env (token u) = None" for u
    using that by (simp add: authorize_def authorize_error_def)
  show ?thesis using 1 2 3 4 by blast
qed

theorem blank_sentinel_witness:
  "saveContext (demo_env demo_exchange True)
        \<lparr>body_context = Some ''hi'', body_name = Some ''V'',
          body_emailId = Some ''irctcvivek62@gmail.com''\<rparr> (startup []) =
       (\<lparr>outcome = Replied \<lparr>status = 200, sent = Json_message ''Context saved successfully''\<rparr>,
         calls = [Context_save]\<rparr>,
        \<lparr>store = [\<lparr>name = Some ''V'', email = ''irctcvivek62@gmail.com'',
                     context' = Some ''hi'', token = '' ''\<rparr>],
          credentials = None, listeners = []\<rparr>)
   \<and> outcome (fst (authorize (demo_env demo_exchange True) 2
        (\<lparr>store = [\<lparr>name = Some ''V'', email = ''irctcvivek62@gmail.com'',
                     context' = Some ''hi'', token = '' ''\<rparr>],
          credentials = None, listeners = []\<rparr>))) = Suspended
   \<and> JSON_parse (demo_env demo_exchange True) '''' = None
   \<and> authorize (demo_env demo_exchange True) 2
        (\<lparr>store = [\<lparr>name = Some ''V'', email = ''irctcvivek62@gmail.com'',
                     context' = Some ''hi'', token = ''''\<rparr>],
          credentials = None, listeners = []\<rparr>) =
       (\<lparr>outcome = Replied \<lparr>status = 500, sent = Send ''Error during authorization.''\<rparr>,
         calls = [Context_findOne]\<rparr>,
        \<lparr>store = [\<lparr>name = Some ''V'', email = ''irctcvivek62@gmail.com'',
                     context' = Some ''hi'', token = ''''\<rparr>],
          credentials = None, listeners = []\<rparr>)"
proof -
  let ?env = "demo_env demo_exchange True"
  let ?b = "\<lparr>body_context = Some ''hi'', body_name = Some ''V'',
          body_emailId = Some ''irctcvivek62@gmail.com''\<rparr>"
  let ?blank = "\<lparr>store = [\<lparr>name = Some ''V'', email = ''irctcvivek62@gmail.com'',
                     context' = Some ''hi'', token = '' ''\<rparr>],
          credentials = None, listeners = []\<rparr> :: string state"
  let ?empty = "\<lparr>store = [\<lparr>name = Some ''V'', email = ''irctcvivek62@gmail.com'',
                     context' = Some ''hi'', token = ''''\<rparr>],
          credentials = None, listeners = []\<rparr> :: string state"
  have sv: "saveContext ?env ?b (startup []) =
       (\<lparr>outcome = Replied \<lparr>status = 200, sent = Json_message ''Context saved successfully''\<rparr>,
         calls = [Context_save]\<rparr>, ?blank)"
    by (simp add: saveContext_def save_def token_default_def startup_def demo_env_def)
  have up: "mongo_up ?env" by (simp add: demo_env_def)
  have b: "findOne (store ?blank) emailId = None \<or>
           (\<exists>u. findOne (store ?blank) emailId = Some u \<and> token u = [CHR 0x20])"
    by (simp add: emailId_def)
  have p: "JSON_parse ?env '''' = None" by (simp add: demo_env_def demo_parse_def)
  have e: "mongo_up ?env \<and> findOne (store ?empty) emailId =
             Some \<lparr>name = Some ''V'', email = ''irctcvivek62@gmail.com'',
                    context' = Some ''hi'', token = ''''\<rparr>
           \<and> '''' \<noteq> [CHR 0x20] \<and> JSON_parse ?env '''' = None"
    using up p by (simp add: emailId_def)
  from up b blank_sentinel [of ?env ?b ?blank 2]
  have 1: "outcome (fst (authorize ?env 2 ?blank)) = Suspended" by blast
  from e blank_sentinel [of ?env ?b ?empty 2]
  have 2: "authorize ?env 2 ?empty =
       (\<lparr>outcome = Replied \<lparr>status = 500, sent = Send ''Error during authorization.''\<rparr>,
         calls = [Context_findOne]\<rparr>, ?empty)"
    by simp
  show ?thesis using sv p 1 2 by simp
qed

end
